theory Spec2Isabelle
  imports Main
begin

section \<open>The index build script \<open>scripts/build_lunr_index.mjs\<close>\<close>

text \<open>
  The script reads \<open>out/github-docs.json\<close>, parses it, hands every document to the
  builder of the lunr library inside the configuration callback, and writes the
  serialised index to \<open>out/github-lunr-index.json\<close>.

  The lunr library, \<open>JSON.parse\<close>, \<open>JSON.stringify\<close> and the conversion of a value
  to a string are not part of the repository. They are parameters of the model (the
  record \<open>platform\<close>). The builder of the library is an abstract state with the three
  methods the callback calls on it; each of them may raise.
\<close>

subsection \<open>Values\<close>

text \<open>
  The values \<open>JSON.parse\<close> produces, and \<open>undefined\<close> for a property that is absent.
  An object is the association list of its own properties, each key once (\<open>map_of\<close>
  looks a key up). A string is the list of its code points.
  The numbers of the document records are integers (issue numbers).
\<close>

datatype jsval =
    JUndefined
  | JNull
  | JBool bool
  | JNum int
  | JStr string
  | JArr "jsval list"
  | JObj "(string \<times> jsval) list"

datatype error = ENOENT | SyntaxError | TypeError | EACCES

text \<open>\<open>ToBoolean\<close>: the falsy values are \<open>undefined\<close>, \<open>null\<close>, \<open>false\<close>, \<open>0\<close> and \<open>""\<close>.\<close>

fun truthy :: "jsval \<Rightarrow> bool" where
  "truthy JUndefined = False"
| "truthy JNull = False"
| "truthy (JBool b) = b"
| "truthy (JNum n) = (n \<noteq> 0)"
| "truthy (JStr s) = (s \<noteq> [])"
| "truthy (JArr xs) = True"
| "truthy (JObj kvs) = True"

text \<open>\<open>a || b\<close>.\<close>

definition js_or :: "jsval \<Rightarrow> jsval \<Rightarrow> jsval" where
  "js_or a b = (if truthy a then a else b)"

text \<open>
  \<open>d.k\<close> for the property names the script reads (\<open>id\<close>, \<open>title\<close>, \<open>excerpt\<close>,
  \<open>labels\<close>; no built-in prototype defines any of them): a \<open>TypeError\<close> on
  \<open>undefined\<close> and \<open>null\<close>, the own property of an object, and \<open>undefined\<close>
  everywhere else.
\<close>

fun get_prop :: "jsval \<Rightarrow> string \<Rightarrow> error + jsval" where
  "get_prop JUndefined k = Inl TypeError"
| "get_prop JNull k = Inl TypeError"
| "get_prop (JObj kvs) k = Inr (case map_of kvs k of None \<Rightarrow> JUndefined | Some v \<Rightarrow> v)"
| "get_prop v k = Inr JUndefined"

text \<open>
  \<open>Array.prototype.join\<close>: the separator goes before every element but the first; an
  element that is \<open>undefined\<close> or \<open>null\<close> contributes the empty string, a string
  contributes itself, any other element its \<open>ToString\<close> (the parameter \<open>ts\<close>), which
  raises a \<open>TypeError\<close> on an object that cannot be converted; the exception ends the
  join.
\<close>

definition join_elem :: "(jsval \<Rightarrow> error + string) \<Rightarrow> jsval \<Rightarrow> error + string" where
  "join_elem ts e =
     (case e of JUndefined \<Rightarrow> Inr [] | JNull \<Rightarrow> Inr [] | JStr s \<Rightarrow> Inr s | _ \<Rightarrow> ts e)"

fun join_loop ::
  "(jsval \<Rightarrow> error + string) \<Rightarrow> string \<Rightarrow> string \<Rightarrow> nat \<Rightarrow> jsval list \<Rightarrow> error + string" where
  "join_loop ts sep r k [] = Inr r"
| "join_loop ts sep r k (e # es) =
     (case join_elem ts e of
        Inl err \<Rightarrow> Inl err
      | Inr s \<Rightarrow> join_loop ts sep ((if 0 < k then r @ sep else r) @ s) (Suc k) es)"

text \<open>
  \<open>v.join(sep)\<close>: only an array has a \<open>join\<close> method; on any other value the call
  raises a \<open>TypeError\<close>.
\<close>

fun js_join :: "(jsval \<Rightarrow> error + string) \<Rightarrow> jsval \<Rightarrow> string \<Rightarrow> error + string" where
  "js_join ts (JArr es) sep = join_loop ts sep [] 0 es"
| "js_join ts v sep = Inl TypeError"

subsection \<open>The configuration callback\<close>

text \<open>
  The builder the callback runs on (\<open>this\<close>): a state of the library, and the methods
  \<open>this.ref\<close>, \<open>this.field\<close> and \<open>this.add\<close>, each returning the new state or raising.
\<close>

record 'b builder_api =
  this_ref :: "'b \<Rightarrow> string \<Rightarrow> error + 'b"
  this_field :: "'b \<Rightarrow> string \<Rightarrow> error + 'b"
  this_add :: "'b \<Rightarrow> jsval \<Rightarrow> error + 'b"

text \<open>
  The object literal handed to \<open>this.add\<close>:
  \<^verbatim>\<open>{ id: d.id, title: d.title || "", excerpt: d.excerpt || "",
    labels: (d.labels || []).join(" ") }\<close>
\<close>

definition index_doc :: "(jsval \<Rightarrow> error + string) \<Rightarrow> jsval \<Rightarrow> error + jsval" where
  "index_doc ts d =
     (case get_prop d ''id'' of Inl e \<Rightarrow> Inl e | Inr i \<Rightarrow>
     (case get_prop d ''title'' of Inl e \<Rightarrow> Inl e | Inr t \<Rightarrow>
     (case get_prop d ''excerpt'' of Inl e \<Rightarrow> Inl e | Inr x \<Rightarrow>
     (case get_prop d ''labels'' of Inl e \<Rightarrow> Inl e | Inr l \<Rightarrow>
     (case js_join ts (js_or l (JArr [])) '' '' of Inl e \<Rightarrow> Inl e | Inr s \<Rightarrow>
        Inr (JObj [(''id'', i),
                   (''title'', js_or t (JStr [])),
                   (''excerpt'', js_or x (JStr [])),
                   (''labels'', JStr s)]))))))"

text \<open>
  \<open>for (const d of docs)\<close>: an array yields its elements, a string its code points, and
  anything else is not iterable.
\<close>

fun iterate :: "jsval \<Rightarrow> error + jsval list" where
  "iterate (JArr ds) = Inr ds"
| "iterate (JStr s) = Inr (map (\<lambda>c. JStr [c]) s)"
| "iterate v = Inl TypeError"

text \<open>
  The loop: for each document the object literal is evaluated and handed to
  \<open>this.add\<close>; an exception of either ends the loop.
\<close>

fun add_all ::
  "'b builder_api \<Rightarrow> (jsval \<Rightarrow> error + string) \<Rightarrow> jsval list \<Rightarrow> 'b \<Rightarrow> error + 'b" where
  "add_all B ts [] b = Inr b"
| "add_all B ts (d # ds) b =
     (case index_doc ts d of
        Inl e \<Rightarrow> Inl e
      | Inr obj \<Rightarrow>
     (case this_add B b obj of
        Inl e \<Rightarrow> Inl e
      | Inr b' \<Rightarrow> add_all B ts ds b'))"

text \<open>The function handed to \<open>lunr\<close>, run on the builder state \<open>b\<close>.\<close>

definition callback_on ::
  "'b builder_api \<Rightarrow> (jsval \<Rightarrow> error + string) \<Rightarrow> jsval \<Rightarrow> 'b \<Rightarrow> error + 'b" where
  "callback_on B ts docs b =
     (case this_ref B b ''id'' of Inl e \<Rightarrow> Inl e | Inr b1 \<Rightarrow>
     (case this_field B b1 ''title'' of Inl e \<Rightarrow> Inl e | Inr b2 \<Rightarrow>
     (case this_field B b2 ''excerpt'' of Inl e \<Rightarrow> Inl e | Inr b3 \<Rightarrow>
     (case this_field B b3 ''labels'' of Inl e \<Rightarrow> Inl e | Inr b4 \<Rightarrow>
     (case iterate docs of Inl e \<Rightarrow> Inl e | Inr ds \<Rightarrow>
        add_all B ts ds b4)))))"

text \<open>
  The calls the callback makes (\<open>this.ref\<close>, \<open>this.field\<close>, \<open>this.add\<close>): the callback
  run on a builder that accepts every call and records it.
\<close>

datatype call = ThisRef string | ThisField string | ThisAdd jsval

definition recorder :: "call list builder_api" where
  "recorder =
     \<lparr>this_ref = (\<lambda>calls r. Inr (calls @ [ThisRef r])),
      this_field = (\<lambda>calls f. Inr (calls @ [ThisField f])),
      this_add = (\<lambda>calls obj. Inr (calls @ [ThisAdd obj]))\<rparr>"

definition callback :: "(jsval \<Rightarrow> error + string) \<Rightarrow> jsval \<Rightarrow> error + call list" where
  "callback ts docs = callback_on recorder ts docs []"

subsection \<open>The script\<close>

text \<open>
  What the script takes from outside the repository: \<open>JSON.parse\<close> (\<open>None\<close> when it
  raises a \<open>SyntaxError\<close>), \<open>ToString\<close> (which may raise), the number of UTF-16 code
  units of a string (its \<open>length\<close>), the fresh builder of lunr with its methods,
  \<open>builder.build()\<close>, and \<open>JSON.stringify\<close> on the index.
\<close>

record ('b, 'idx) platform =
  json_parse :: "string \<Rightarrow> jsval option"
  to_string :: "jsval \<Rightarrow> error + string"
  utf16_length :: "string \<Rightarrow> nat"
  lunr_builder :: 'b
  lunr_api :: "'b builder_api"
  lunr_build :: "'b \<Rightarrow> error + 'idx"
  json_stringify :: "'idx \<Rightarrow> string"

text \<open>The files by path, and the paths that can be written.\<close>

record filesystem =
  files :: "string \<rightharpoonup> string"
  writable :: "string \<Rightarrow> bool"

definition docsPath :: string where
  "docsPath = ''out/github-docs.json''"

definition idxPath :: string where
  "idxPath = ''out/github-lunr-index.json''"

definition readFileSync :: "filesystem \<Rightarrow> string \<Rightarrow> error + string" where
  "readFileSync fs p = (case files fs p of None \<Rightarrow> Inl ENOENT | Some t \<Rightarrow> Inr t)"

definition writeFileSync :: "filesystem \<Rightarrow> string \<Rightarrow> string \<Rightarrow> error + filesystem" where
  "writeFileSync fs p t =
     (if writable fs p then Inr (fs\<lparr>files := (files fs)(p \<mapsto> t)\<rparr>) else Inl EACCES)"

text \<open>
  \<open>lunr(function () { ... })\<close>: the callback runs on a fresh builder, then the index is
  built; an exception of the callback, of a builder method or of the build ends it.
\<close>

definition lunr :: "('b, 'idx) platform \<Rightarrow> jsval \<Rightarrow> error + 'idx" where
  "lunr P docs =
     (case callback_on (lunr_api P) (to_string P) docs (lunr_builder P) of
        Inl e \<Rightarrow> Inl e
      | Inr b \<Rightarrow> lunr_build P b)"

text \<open>Decimal digits of a number, for the log line.\<close>

fun show_nat :: "nat \<Rightarrow> string" where
  "show_nat n =
     (if n < 10 then [''0123456789'' ! n]
      else show_nat (n div 10) @ [''0123456789'' ! (n mod 10)])"

declare show_nat.simps [simp del]

text \<open>
  \<open>docs.length\<close>: the number of elements of an array, the number of UTF-16 code units
  of a string. The log line is reached only after the loop has run over \<open>docs\<close>, that
  is for an array or a string.
\<close>

fun docs_length :: "(string \<Rightarrow> nat) \<Rightarrow> jsval \<Rightarrow> nat" where
  "docs_length units (JArr ds) = length ds"
| "docs_length units (JStr s) = units s"
| "docs_length units v = 0"

text \<open>
  A run ends with the file system it leaves, the lines it logged and the exception that
  ended it, if any. Node exits with status 1 on an uncaught exception and 0 otherwise.
\<close>

record outcome =
  out_fs :: filesystem
  out_log :: "string list"
  out_error :: "error option"

definition failed :: "filesystem \<Rightarrow> error \<Rightarrow> outcome" where
  "failed fs e = \<lparr>out_fs = fs, out_log = [], out_error = Some e\<rparr>"

definition exit_code :: "outcome \<Rightarrow> nat" where
  "exit_code out = (case out_error out of None \<Rightarrow> 0 | Some e \<Rightarrow> 1)"

text \<open>The text handed to \<open>fs.writeFileSync\<close>: \<open>JSON.stringify(idx)\<close> for the index built from \<open>docs\<close>.\<close>

definition build_index :: "('b, 'idx) platform \<Rightarrow> jsval \<Rightarrow> error + string" where
  "build_index P docs =
     (case lunr P docs of
        Inl e \<Rightarrow> Inl e
      | Inr idx \<Rightarrow> Inr (json_stringify P idx))"

definition run :: "('b, 'idx) platform \<Rightarrow> filesystem \<Rightarrow> outcome" where
  "run P fs =
     (case readFileSync fs docsPath of
        Inl e \<Rightarrow> failed fs e
      | Inr text \<Rightarrow>
     (case json_parse P text of
        None \<Rightarrow> failed fs SyntaxError
      | Some docs \<Rightarrow>
     (case build_index P docs of
        Inl e \<Rightarrow> failed fs e
      | Inr out \<Rightarrow>
     (case writeFileSync fs idxPath out of
        Inl e \<Rightarrow> failed fs e
      | Inr fs' \<Rightarrow>
          \<lparr>out_fs = fs',
           out_log = [''Wrote '' @ idxPath @ '' (''
                      @ show_nat (docs_length (utf16_length P) docs) @ '' docs)''],
           out_error = None\<rparr>))))"

subsection \<open>Reading the calls and the documents\<close>

text \<open>The value of \<open>d.k\<close> where the access does not raise.\<close>

definition js_prop :: "jsval \<Rightarrow> string \<Rightarrow> jsval" where
  "js_prop d k = (case get_prop d k of Inl e \<Rightarrow> JUndefined | Inr v \<Rightarrow> v)"

text \<open>The documents added to the builder, in the order of the calls.\<close>

fun added :: "call list \<Rightarrow> jsval list" where
  "added [] = []"
| "added (ThisAdd obj # cs) = obj # added cs"
| "added (c # cs) = added cs"

fun ref_names :: "call list \<Rightarrow> string list" where
  "ref_names [] = []"
| "ref_names (ThisRef r # cs) = r # ref_names cs"
| "ref_names (c # cs) = ref_names cs"

fun field_names :: "call list \<Rightarrow> string list" where
  "field_names [] = []"
| "field_names (ThisField f # cs) = f # field_names cs"
| "field_names (c # cs) = field_names cs"



fun is_array :: "jsval \<Rightarrow> bool" where
  "is_array (JArr xs) = True"
| "is_array v = False"

fun elements :: "jsval \<Rightarrow> jsval list" where
  "elements (JArr xs) = xs"
| "elements v = []"

text \<open>The elements \<open>join\<close> renders without \<open>ToString\<close>, and what it renders them as.\<close>

fun is_text :: "jsval \<Rightarrow> bool" where
  "is_text (JStr s) = True"
| "is_text JNull = True"
| "is_text JUndefined = True"
| "is_text v = False"

fun text_of :: "jsval \<Rightarrow> string" where
  "text_of (JStr s) = s"
| "text_of v = []"

text \<open>
  The documents of the data model, as far as the object literal of \<open>this.add\<close> reads
  them: \<open>d\<close> is neither \<open>undefined\<close> nor \<open>null\<close>, and \<open>d.labels\<close> is falsy or an array
  of strings (\<open>null\<close> and \<open>undefined\<close> elements are let through, \<open>join\<close> renders them
  as the empty string). On these the literal evaluates, whatever \<open>ToString\<close> does.
\<close>

definition indexable :: "jsval \<Rightarrow> bool" where
  "indexable d =
     (case get_prop d ''labels'' of
        Inl e \<Rightarrow> False
      | Inr l \<Rightarrow> (if truthy l then is_array l \<and> list_all is_text (elements l) else True))"

text \<open>The object the literal yields for a document.\<close>

definition doc_obj :: "(jsval \<Rightarrow> error + string) \<Rightarrow> jsval \<Rightarrow> jsval" where
  "doc_obj ts d = (case index_doc ts d of Inl e \<Rightarrow> JUndefined | Inr obj \<Rightarrow> obj)"

text \<open>Two documents with the same \<open>id\<close>, \<open>title\<close>, \<open>excerpt\<close> and \<open>labels\<close>.\<close>

definition same_indexed_fields :: "jsval \<Rightarrow> jsval \<Rightarrow> bool" where
  "same_indexed_fields d1 d2 =
     list_all (\<lambda>k. get_prop d1 k = get_prop d2 k) [''id'', ''title'', ''excerpt'', ''labels'']"

text \<open>
  The wording of the specification for the \<open>labels\<close> text: the labels joined by single
  spaces.
\<close>

fun join_spaces :: "string list \<Rightarrow> string" where
  "join_spaces [] = []"
| "join_spaces [l] = l"
| "join_spaces (l # ls) = l @ '' '' @ join_spaces ls"

text \<open>
  A platform on which the model can be evaluated: the builder records the calls, the
  index is the sequence of calls, serialised as the number of calls, and three input
  texts parse. Its \<open>ToString\<close> always raises.
\<close>

definition demo :: "(call list, call list) platform" where
  "demo =
     \<lparr>json_parse = (\<lambda>t. if t = ''[]'' then Some (JArr [])
                         else if t = ''[{}]'' then Some (JArr [JObj []])
                         else if t = ''[null]'' then Some (JArr [JNull])
                         else None),
      to_string = (\<lambda>v. Inl TypeError),
      utf16_length = length,
      lunr_builder = [],
      lunr_api = recorder,
      lunr_build = (\<lambda>calls. Inr calls),
      json_stringify = (\<lambda>calls. show_nat (length calls))\<rparr>"

text \<open>A file system holding the input file with one empty document.\<close>

definition demo_fs :: filesystem where
  "demo_fs = \<lparr>files = [docsPath \<mapsto> ''[{}]''], writable = (\<lambda>p. True)\<rparr>"

section \<open>Properties of the callback\<close>

lemma get_prop_js_prop:
  assumes "get_prop d k0 = Inr v"
  shows "get_prop d k = Inr (js_prop d k)"
  using assms by (cases d) (auto simp: js_prop_def)

subsection \<open>join\<close>

lemma join_elem_text: "is_text e \<Longrightarrow> join_elem ts e = Inr (text_of e)"
  by (cases e) (simp_all add: join_elem_def)

lemma join_loop_texts:
  "list_all is_text es \<Longrightarrow>
   join_loop ts '' '' r k es =
     Inr (if es = [] then r
          else (if 0 < k then r @ '' '' else r) @ join_spaces (map text_of es))"
proof (induction es arbitrary: r k)
  case Nil
  then show ?case by simp
next
  case (Cons e es)
  then have e: "is_text e" and rest: "list_all is_text es"
    by simp_all
  let ?acc = "(if 0 < k then r @ '' '' else r) @ text_of e"
  have "join_loop ts '' '' r k (e # es) = join_loop ts '' '' ?acc (Suc k) es"
    by (simp add: join_elem_text [OF e])
  also have "\<dots> = Inr (if es = [] then ?acc else (?acc @ '' '') @ join_spaces (map text_of es))"
    by (simp add: Cons.IH [OF rest])
  also have "(if es = [] then ?acc else (?acc @ '' '') @ join_spaces (map text_of es))
      = (if 0 < k then r @ '' '' else r) @ join_spaces (map text_of (e # es))"
    by (cases es) simp_all
  finally show ?case by simp
qed

lemma join_loop_texts_start:
  "list_all is_text es \<Longrightarrow> join_loop ts '' '' [] 0 es = Inr (join_spaces (map text_of es))"
  by (simp add: join_loop_texts)

lemma text_of_strings: "map (text_of \<circ> JStr) ls = ls"
  by (induction ls) simp_all

lemma is_text_strings: "list_all is_text (map JStr ls)"
  by (induction ls) simp_all

subsection \<open>The object literal\<close>

lemma index_doc_indexable:
  assumes "indexable d"
  shows "index_doc ts d =
     Inr (JObj [(''id'', js_prop d ''id''),
                (''title'', js_or (js_prop d ''title'') (JStr [])),
                (''excerpt'', js_or (js_prop d ''excerpt'') (JStr [])),
                (''labels'', JStr (join_spaces (map text_of (elements (js_prop d ''labels'')))))])"
proof -
  from assms obtain l where l: "get_prop d ''labels'' = Inr l"
    and ok: "truthy l \<Longrightarrow> is_array l \<and> list_all is_text (elements l)"
    by (auto simp: indexable_def split: sum.splits if_splits)
  have g: "get_prop d k = Inr (js_prop d k)" for k
    using l by (rule get_prop_js_prop)
  have lp: "js_prop d ''labels'' = l"
    using l by (simp add: js_prop_def)
  have j: "js_join ts (js_or l (JArr [])) '' '' = Inr (join_spaces (map text_of (elements l)))"
  proof (cases "truthy l")
    case True
    with ok obtain es where "l = JArr es" and "list_all is_text es"
      by (cases l) auto
    then show ?thesis
      by (simp add: js_or_def join_loop_texts_start)
  next
    case False
    then have "elements l = []"
      by (cases l) auto
    with False show ?thesis
      by (simp add: js_or_def)
  qed
  show ?thesis
    unfolding index_doc_def by (simp add: g j lp)
qed

lemma doc_obj_Inr: "index_doc ts d = Inr obj \<Longrightarrow> doc_obj ts d = obj"
  by (simp add: doc_obj_def)


lemma doc_obj_strings:
  assumes "js_prop d ''title'' = JStr t" and "js_prop d ''excerpt'' = JStr x"
    and "js_prop d ''labels'' = JArr (map JStr ls)"
  shows "indexable d"
    and "doc_obj ts d =
      JObj [(''id'', js_prop d ''id''), (''title'', JStr t), (''excerpt'', JStr x),
            (''labels'', JStr (join_spaces ls))]"
proof -
  from assms(3) have g: "get_prop d ''labels'' = Inr (JArr (map JStr ls))"
    by (cases d) (auto simp: js_prop_def)
  then show i: "indexable d"
    by (simp add: indexable_def is_text_strings)
  show "doc_obj ts d =
      JObj [(''id'', js_prop d ''id''), (''title'', JStr t), (''excerpt'', JStr x),
            (''labels'', JStr (join_spaces ls))]"
    using assms
    by (simp add: doc_obj_def index_doc_indexable [OF i] js_or_def text_of_strings)
qed

subsection \<open>The calls\<close>

lemma add_all_recorder:
  "add_all recorder ts ds calls = Inr calls' \<Longrightarrow>
   calls' = calls @ map (\<lambda>d. ThisAdd (doc_obj ts d)) ds"
proof (induction ds arbitrary: calls)
  case Nil
  then show ?case by simp
next
  case (Cons d ds)
  from Cons.prems obtain obj where o: "index_doc ts d = Inr obj"
    by (cases "index_doc ts d") auto
  with Cons.prems have "add_all recorder ts ds (calls @ [ThisAdd obj]) = Inr calls'"
    by (simp add: recorder_def)
  then have "calls' = (calls @ [ThisAdd obj]) @ map (\<lambda>d. ThisAdd (doc_obj ts d)) ds"
    by (rule Cons.IH)
  then show ?case
    by (simp add: doc_obj_Inr [OF o])
qed


lemma callback_recorder:
  "callback ts docs =
     (case iterate docs of
        Inl e \<Rightarrow> Inl e
      | Inr ds \<Rightarrow>
          add_all recorder ts ds
            [ThisRef ''id'', ThisField ''title'', ThisField ''excerpt'', ThisField ''labels''])"
proof -
  have "this_ref recorder [] ''id'' = Inr [ThisRef ''id'']"
    and "this_field recorder [ThisRef ''id''] ''title'' = Inr [ThisRef ''id'', ThisField ''title'']"
    and "this_field recorder [ThisRef ''id'', ThisField ''title''] ''excerpt''
         = Inr [ThisRef ''id'', ThisField ''title'', ThisField ''excerpt'']"
    and "this_field recorder [ThisRef ''id'', ThisField ''title'', ThisField ''excerpt''] ''labels''
         = Inr [ThisRef ''id'', ThisField ''title'', ThisField ''excerpt'', ThisField ''labels'']"
    by (simp_all add: recorder_def)
  then show ?thesis
    by (simp add: callback_def callback_on_def)
qed


lemma callback_Inr:
  assumes "callback ts (JArr ds) = Inr calls"
  shows "calls = [ThisRef ''id'', ThisField ''title'', ThisField ''excerpt'', ThisField ''labels'']
                 @ map (\<lambda>d. ThisAdd (doc_obj ts d)) ds"
proof -
  from assms
  have "add_all recorder ts ds
      [ThisRef ''id'', ThisField ''title'', ThisField ''excerpt'', ThisField ''labels''] = Inr calls"
    by (simp add: callback_recorder)
  from add_all_recorder [OF this] show ?thesis .
qed

lemma added_adds: "added (map (\<lambda>d. ThisAdd (f d)) ds) = map f ds"
  by (induction ds) simp_all

lemma ref_names_adds: "ref_names (map (\<lambda>d. ThisAdd (f d)) ds) = []"
  by (induction ds) simp_all

lemma field_names_adds: "field_names (map (\<lambda>d. ThisAdd (f d)) ds) = []"
  by (induction ds) simp_all




section \<open>The claims\<close>

subsection \<open>Documents\<close>

text \<open>
  Claim C8. Whenever the callback completes, it has set the reference key \<open>id\<close> and
  registered exactly the three fields \<open>title\<close>, \<open>excerpt\<close> and \<open>labels\<close>, and it has
  added one object per document. For a document whose title and excerpt are strings and
  whose labels are an array of strings, that object holds the document's \<open>id\<close>, the title
  as it is, the excerpt as it is, and the labels joined by single spaces
  (\<open>join_spaces\<close>, the wording of the specification).
\<close>

theorem three_fields_registered:
  assumes "callback ts (JArr ds) = Inr calls"
  shows "ref_names calls = [''id'']
       \<and> field_names calls = [''title'', ''excerpt'', ''labels'']
       \<and> added calls = map (doc_obj ts) ds
       \<and> (\<forall>d \<in> set ds. \<forall>t x ls.
             js_prop d ''title'' = JStr t \<longrightarrow> js_prop d ''excerpt'' = JStr x \<longrightarrow>
             js_prop d ''labels'' = JArr (map JStr ls) \<longrightarrow>
               doc_obj ts d =
                 JObj [(''id'', js_prop d ''id''), (''title'', JStr t), (''excerpt'', JStr x),
                       (''labels'', JStr (join_spaces ls))])"
proof -
  note c = callback_Inr [OF assms]
  have "ref_names calls = [''id'']"
    unfolding c by (simp add: ref_names_adds)
  moreover have "field_names calls = [''title'', ''excerpt'', ''labels'']"
    unfolding c by (simp add: field_names_adds)
  moreover have "added calls = map (doc_obj ts) ds"
    unfolding c by (simp add: added_adds)
  ultimately show ?thesis
    using doc_obj_strings(2) by blast
qed

text \<open>The example document of the specification: its labels text is \<open>bug pdf\<close>.\<close>

theorem three_fields_registered_witness:
  "callback (to_string demo)
     (JArr [JObj [(''id'', JStr ''issue-42''), (''title'', JStr ''Cannot export PDF''),
                  (''excerpt'', JStr ''export fails silently''),
                  (''labels'', JArr [JStr ''bug'', JStr ''pdf''])]])
   = Inr [ThisRef ''id'', ThisField ''title'', ThisField ''excerpt'', ThisField ''labels'',
          ThisAdd (JObj [(''id'', JStr ''issue-42''), (''title'', JStr ''Cannot export PDF''),
                         (''excerpt'', JStr ''export fails silently''),
                         (''labels'', JStr ''bug pdf'')])]
   \<and> doc_obj (to_string demo)
        (JObj [(''id'', JStr ''issue-42''), (''title'', JStr ''Cannot export PDF''),
               (''excerpt'', JStr ''export fails silently''),
               (''labels'', JArr [JStr ''bug'', JStr ''pdf''])])
      = JObj [(''id'', JStr ''issue-42''), (''title'', JStr ''Cannot export PDF''),
              (''excerpt'', JStr ''export fails silently''),
              (''labels'', JStr (join_spaces [''bug'', ''pdf'']))]"
proof -
  let ?d = "JObj [(''id'', JStr ''issue-42''), (''title'', JStr ''Cannot export PDF''),
                  (''excerpt'', JStr ''export fails silently''),
                  (''labels'', JArr [JStr ''bug'', JStr ''pdf''])]"
  let ?calls = "[ThisRef ''id'', ThisField ''title'', ThisField ''excerpt'', ThisField ''labels'',
          ThisAdd (JObj [(''id'', JStr ''issue-42''), (''title'', JStr ''Cannot export PDF''),
                         (''excerpt'', JStr ''export fails silently''),
                         (''labels'', JStr ''bug pdf'')])]"
  have c: "callback (to_string demo) (JArr [?d]) = Inr ?calls"
    by (simp add: callback_recorder recorder_def index_doc_def js_or_def join_elem_def)
  have p: "js_prop ?d ''title'' = JStr ''Cannot export PDF''"
    "js_prop ?d ''excerpt'' = JStr ''export fails silently''"
    "js_prop ?d ''labels'' = JArr (map JStr [''bug'', ''pdf''])"
    by (simp_all add: js_prop_def)
  from three_fields_registered [OF c] p
  have "doc_obj (to_string demo) ?d
      = JObj [(''id'', js_prop ?d ''id''), (''title'', JStr ''Cannot export PDF''),
              (''excerpt'', JStr ''export fails silently''),
              (''labels'', JStr (join_spaces [''bug'', ''pdf'']))]"
    by (meson list.set_intros(1))
  then show ?thesis
    using c by (simp add: js_prop_def)
qed



lemma index_doc_same:
  "same_indexed_fields d1 d2 \<Longrightarrow> index_doc ts d1 = index_doc ts d2"
proof -
  assume "same_indexed_fields d1 d2"
  then have "get_prop d1 ''id'' = get_prop d2 ''id''"
    and "get_prop d1 ''title'' = get_prop d2 ''title''"
    and "get_prop d1 ''excerpt'' = get_prop d2 ''excerpt''"
    and "get_prop d1 ''labels'' = get_prop d2 ''labels''"
    by (simp_all add: same_indexed_fields_def)
  then show ?thesis
    unfolding index_doc_def by (simp only:)
qed

lemma add_all_same:
  "list_all2 same_indexed_fields ds1 ds2 \<Longrightarrow> add_all B ts ds1 b = add_all B ts ds2 b"
proof (induction ds1 ds2 arbitrary: b rule: list_all2_induct)
  case Nil
  then show ?case by simp
next
  case (Cons d1 ds1 d2 ds2)
  then show ?case
    by (simp add: index_doc_same [of d1 d2] split: sum.splits)
qed

lemma callback_on_same:
  assumes "list_all2 same_indexed_fields ds1 ds2"
  shows "callback_on B ts (JArr ds1) b = callback_on B ts (JArr ds2) b"
  unfolding callback_on_def
  by (simp add: add_all_same [OF assms] split: sum.splits)

text \<open>
  Claim C10. Two lists of documents of the same length that agree, document by document,
  on \<open>id\<close>, \<open>title\<close>, \<open>excerpt\<close> and \<open>labels\<close> give the same serialised index (or the
  same exception), whatever their other properties (\<open>type\<close>, \<open>number\<close>, \<open>url\<close>,
  \<open>updated_at\<close>) are.
\<close>

theorem other_fields_ignored:
  assumes "list_all2 same_indexed_fields ds1 ds2"
  shows "build_index P (JArr ds1) = build_index P (JArr ds2)"
  by (simp add: build_index_def lunr_def callback_on_same [OF assms])

text \<open>Two records that differ in \<open>type\<close>, \<open>number\<close>, \<open>url\<close> and \<open>updated_at\<close>.\<close>

theorem other_fields_ignored_witness:
  "list_all2 same_indexed_fields
     [JObj [(''id'', JStr ''issue-1''), (''type'', JStr ''issue''), (''number'', JNum 1),
            (''title'', JStr ''Crash''), (''url'', JStr ''https://a''),
            (''updated_at'', JStr ''2024-01-01'')]]
     [JObj [(''id'', JStr ''issue-1''), (''type'', JStr ''discussion''), (''number'', JNum 2),
            (''title'', JStr ''Crash''), (''url'', JStr ''https://b''),
            (''updated_at'', JStr ''2025-01-01'')]]
   \<and> build_index demo
        (JArr [JObj [(''id'', JStr ''issue-1''), (''type'', JStr ''issue''), (''number'', JNum 1),
                     (''title'', JStr ''Crash''), (''url'', JStr ''https://a''),
                     (''updated_at'', JStr ''2024-01-01'')]])
     = build_index demo
        (JArr [JObj [(''id'', JStr ''issue-1''), (''type'', JStr ''discussion''), (''number'', JNum 2),
                     (''title'', JStr ''Crash''), (''url'', JStr ''https://b''),
                     (''updated_at'', JStr ''2025-01-01'')]])"
proof -
  have s: "list_all2 same_indexed_fields
     [JObj [(''id'', JStr ''issue-1''), (''type'', JStr ''issue''), (''number'', JNum 1),
            (''title'', JStr ''Crash''), (''url'', JStr ''https://a''),
            (''updated_at'', JStr ''2024-01-01'')]]
     [JObj [(''id'', JStr ''issue-1''), (''type'', JStr ''discussion''), (''number'', JNum 2),
            (''title'', JStr ''Crash''), (''url'', JStr ''https://b''),
            (''updated_at'', JStr ''2025-01-01'')]]"
    by (simp add: same_indexed_fields_def)
  from other_fields_ignored [OF s, of demo] s show ?thesis
    by blast
qed

subsection \<open>The run\<close>

lemma docsPath_neq_idxPath: "docsPath \<noteq> idxPath"
  by (simp add: docsPath_def idxPath_def)

lemma run_no_input:
  "files fs docsPath = None \<Longrightarrow> run P fs = failed fs ENOENT"
  by (simp add: run_def readFileSync_def)

lemma run_malformed:
  "files fs docsPath = Some t \<Longrightarrow> json_parse P t = None \<Longrightarrow> run P fs = failed fs SyntaxError"
  by (simp add: run_def readFileSync_def)

lemma run_build_error:
  "files fs docsPath = Some t \<Longrightarrow> json_parse P t = Some docs \<Longrightarrow> build_index P docs = Inl e \<Longrightarrow>
   run P fs = failed fs e"
  by (simp add: run_def readFileSync_def)

lemma run_write_error:
  "files fs docsPath = Some t \<Longrightarrow> json_parse P t = Some docs \<Longrightarrow> build_index P docs = Inr out \<Longrightarrow>
   \<not> writable fs idxPath \<Longrightarrow> run P fs = failed fs EACCES"
  by (simp add: run_def readFileSync_def writeFileSync_def)

lemma run_success:
  "files fs docsPath = Some t \<Longrightarrow> json_parse P t = Some docs \<Longrightarrow> build_index P docs = Inr out \<Longrightarrow>
   writable fs idxPath \<Longrightarrow>
   run P fs =
     \<lparr>out_fs = fs\<lparr>files := (files fs)(idxPath \<mapsto> out)\<rparr>,
      out_log = [''Wrote '' @ idxPath @ '' ('' @ show_nat (docs_length (utf16_length P) docs) @ '' docs)''],
      out_error = None\<rparr>"
  by (simp add: run_def readFileSync_def writeFileSync_def)

lemma run_failed_or_written:
  "(\<exists>e. run P fs = failed fs e) \<or>
   (\<exists>t docs out. files fs docsPath = Some t \<and> json_parse P t = Some docs \<and>
      build_index P docs = Inr out \<and> writable fs idxPath \<and>
      run P fs =
        \<lparr>out_fs = fs\<lparr>files := (files fs)(idxPath \<mapsto> out)\<rparr>,
         out_log = [''Wrote '' @ idxPath @ '' ('' @ show_nat (docs_length (utf16_length P) docs) @ '' docs)''],
         out_error = None\<rparr>)"
proof (cases "files fs docsPath")
  case None
  then show ?thesis by (auto simp: run_no_input)
next
  case (Some t)
  show ?thesis
  proof (cases "json_parse P t")
    case None
    with Some show ?thesis by (auto simp: run_malformed)
  next
    case docs: (Some docs)
    show ?thesis
    proof (cases "build_index P docs")
      case (Inl e)
      with Some docs show ?thesis by (auto simp: run_build_error)
    next
      case (Inr out)
      show ?thesis
      proof (cases "writable fs idxPath")
        case True
        with Some docs Inr show ?thesis by (simp add: run_success)
      next
        case False
        with Some docs Inr show ?thesis by (auto simp: run_write_error)
      qed
    qed
  qed
qed

lemma run_idem: "run P (out_fs (run P fs)) = run P fs"
  using run_failed_or_written [of P fs]
proof (elim disjE exE conjE)
  fix e assume "run P fs = failed fs e"
  then show ?thesis by (simp add: failed_def)
next
  fix t docs out
  assume t: "files fs docsPath = Some t" and d: "json_parse P t = Some docs"
    and b: "build_index P docs = Inr out" and w: "writable fs idxPath"
    and r: "run P fs =
        \<lparr>out_fs = fs\<lparr>files := (files fs)(idxPath \<mapsto> out)\<rparr>,
         out_log = [''Wrote '' @ idxPath @ '' ('' @ show_nat (docs_length (utf16_length P) docs) @ '' docs)''],
         out_error = None\<rparr>"
  let ?fs' = "fs\<lparr>files := (files fs)(idxPath \<mapsto> out)\<rparr>"
  have t': "files ?fs' docsPath = Some t"
    using t docsPath_neq_idxPath by simp
  have w': "writable ?fs' idxPath"
    using w by simp
  have "run P ?fs' =
     \<lparr>out_fs = ?fs'\<lparr>files := (files ?fs')(idxPath \<mapsto> out)\<rparr>,
      out_log = [''Wrote '' @ idxPath @ '' ('' @ show_nat (docs_length (utf16_length P) docs) @ '' docs)''],
      out_error = None\<rparr>"
    using t' d b w' by (rule run_success)
  then show ?thesis
    by (simp add: r)
qed

lemma run_depends_on_input:
  assumes "files fs1 docsPath = files fs2 docsPath"
    and "writable fs1 idxPath = writable fs2 idxPath"
  shows "out_error (run P fs1) = out_error (run P fs2)
       \<and> out_log (run P fs1) = out_log (run P fs2)
       \<and> (out_error (run P fs1) = None \<longrightarrow>
            files (out_fs (run P fs1)) idxPath = files (out_fs (run P fs2)) idxPath)"
  using assms
  by (auto simp: run_def readFileSync_def writeFileSync_def failed_def
           split: option.splits sum.splits)

text \<open>
  Claim C2. Running the script again on the file system the first run left gives the same
  outcome: the same output file, byte for byte, the same log line and the same exit. The
  outcome depends on the file system only through the content of the input file (and
  through whether the output path can be written): two file systems that agree there get
  the same log, the same error and, on success, the same output file.
\<close>

theorem run_twice_same_output:
  "run P (out_fs (run P fs)) = run P fs
   \<and> (files fs1 docsPath = files fs2 docsPath \<longrightarrow>
      writable fs1 idxPath = writable fs2 idxPath \<longrightarrow>
        out_error (run P fs1) = out_error (run P fs2)
      \<and> out_log (run P fs1) = out_log (run P fs2)
      \<and> (out_error (run P fs1) = None \<longrightarrow>
            files (out_fs (run P fs1)) idxPath = files (out_fs (run P fs2)) idxPath))"
  using run_idem [of P fs] run_depends_on_input [of fs1 fs2 P] by blast

text \<open>
  Claim C3. When the input file is missing, or its content does not parse as JSON, the run
  ends with an exception (\<open>ENOENT\<close> or \<open>SyntaxError\<close>), the exit status is 1 and the file
  system is left as it was: the output file is neither created nor modified. Whenever a
  run changes the file system, the input was read and parsed and the index was built
  before, and the only change is the output file holding the serialised index.
\<close>

theorem bad_input_writes_nothing:
  "(files fs docsPath = None \<or> (\<exists>t. files fs docsPath = Some t \<and> json_parse P t = None) \<longrightarrow>
      out_error (run P fs) \<in> {Some ENOENT, Some SyntaxError}
    \<and> exit_code (run P fs) = 1
    \<and> out_fs (run P fs) = fs)
   \<and> (out_fs (run P fs) \<noteq> fs \<longrightarrow>
        (\<exists>t docs out. files fs docsPath = Some t \<and> json_parse P t = Some docs
           \<and> build_index P docs = Inr out
           \<and> out_fs (run P fs) = fs\<lparr>files := (files fs)(idxPath \<mapsto> out)\<rparr>))"
proof (intro conjI impI)
  assume bad: "files fs docsPath = None \<or> (\<exists>t. files fs docsPath = Some t \<and> json_parse P t = None)"
  then have "run P fs = failed fs ENOENT \<or> run P fs = failed fs SyntaxError"
    using run_no_input run_malformed by blast
  then show "out_error (run P fs) \<in> {Some ENOENT, Some SyntaxError}"
    and "exit_code (run P fs) = 1" and "out_fs (run P fs) = fs"
    by (auto simp: failed_def exit_code_def)
next
  assume "out_fs (run P fs) \<noteq> fs"
  then have "\<nexists>e. run P fs = failed fs e"
    by (auto simp: failed_def)
  with run_failed_or_written [of P fs]
  show "\<exists>t docs out. files fs docsPath = Some t \<and> json_parse P t = Some docs
           \<and> build_index P docs = Inr out
           \<and> out_fs (run P fs) = fs\<lparr>files := (files fs)(idxPath \<mapsto> out)\<rparr>"
    by auto
qed

lemma callback_demo:
  "callback (to_string demo) (JArr [JObj []]) =
      Inr [ThisRef ''id'', ThisField ''title'', ThisField ''excerpt'', ThisField ''labels'',
           ThisAdd (JObj [(''id'', JUndefined), (''title'', JStr []), (''excerpt'', JStr []),
                          (''labels'', JStr [])])]"
  by (simp add: callback_recorder recorder_def index_doc_def js_or_def)

lemma build_index_demo: "build_index demo (JArr [JObj []]) = Inr ''5''"
proof -
  have "lunr demo (JArr [JObj []]) =
      Inr [ThisRef ''id'', ThisField ''title'', ThisField ''excerpt'', ThisField ''labels'',
           ThisAdd (JObj [(''id'', JUndefined), (''title'', JStr []), (''excerpt'', JStr []),
                          (''labels'', JStr [])])]"
    using callback_demo by (simp add: lunr_def callback_def demo_def)
  then show ?thesis
    by (simp add: build_index_def demo_def show_nat.simps)
qed

lemma run_demo_fs:
  "run demo demo_fs =
     \<lparr>out_fs = demo_fs\<lparr>files := (files demo_fs)(idxPath \<mapsto> ''5'')\<rparr>,
      out_log = [''Wrote out/github-lunr-index.json (1 docs)''],
      out_error = None\<rparr>"
proof -
  have p: "json_parse demo ''[{}]'' = Some (JArr [JObj []])"
    by (simp add: demo_def)
  have f: "files demo_fs docsPath = Some ''[{}]''" and w: "writable demo_fs idxPath"
    by (simp_all add: demo_fs_def)
  show ?thesis
    using run_success [OF f p build_index_demo w]
    by (simp add: show_nat.simps idxPath_def demo_def)
qed

text \<open>A run on \<open>demo_fs\<close>, and one that starts with a stale output file.\<close>

theorem run_twice_same_output_witness:
  "files demo_fs docsPath = files (demo_fs\<lparr>files := (files demo_fs)(idxPath \<mapsto> ''stale'')\<rparr>) docsPath
   \<and> writable demo_fs idxPath = writable (demo_fs\<lparr>files := (files demo_fs)(idxPath \<mapsto> ''stale'')\<rparr>) idxPath
   \<and> run demo (out_fs (run demo demo_fs)) = run demo demo_fs
   \<and> out_error (run demo demo_fs) = None
   \<and> files (out_fs (run demo demo_fs)) idxPath = Some ''5''
   \<and> files (out_fs (run demo (demo_fs\<lparr>files := (files demo_fs)(idxPath \<mapsto> ''stale'')\<rparr>))) idxPath = Some ''5''"
proof -
  let ?stale = "demo_fs\<lparr>files := (files demo_fs)(idxPath \<mapsto> ''stale'')\<rparr>"
  note twice = run_twice_same_output [of demo demo_fs demo_fs ?stale]
  have same_input: "files demo_fs docsPath = files ?stale docsPath"
    using docsPath_neq_idxPath by simp
  have same_perm: "writable demo_fs idxPath = writable ?stale idxPath"
    by simp
  have ok: "out_error (run demo demo_fs) = None"
    and out: "files (out_fs (run demo demo_fs)) idxPath = Some ''5''"
    by (simp_all add: run_demo_fs)
  from twice have "run demo (out_fs (run demo demo_fs)) = run demo demo_fs"
    by (rule conjunct1)
  moreover from twice same_input same_perm ok
  have "files (out_fs (run demo demo_fs)) idxPath = files (out_fs (run demo ?stale)) idxPath"
    by blast
  ultimately show ?thesis
    using same_input same_perm ok out by simp
qed

text \<open>An empty file system, a truncated input file, and a run that succeeds.\<close>

theorem bad_input_writes_nothing_witness:
  "files \<lparr>files = Map.empty, writable = (\<lambda>p. True)\<rparr> docsPath = None
   \<and> exit_code (run demo \<lparr>files = Map.empty, writable = (\<lambda>p. True)\<rparr>) = 1
   \<and> out_fs (run demo \<lparr>files = Map.empty, writable = (\<lambda>p. True)\<rparr>)
       = \<lparr>files = Map.empty, writable = (\<lambda>p. True)\<rparr>
   \<and> files \<lparr>files = [docsPath \<mapsto> ''[{''], writable = (\<lambda>p. True)\<rparr> docsPath = Some ''[{''
   \<and> json_parse demo ''[{'' = None
   \<and> exit_code (run demo \<lparr>files = [docsPath \<mapsto> ''[{''], writable = (\<lambda>p. True)\<rparr>) = 1
   \<and> out_fs (run demo \<lparr>files = [docsPath \<mapsto> ''[{''], writable = (\<lambda>p. True)\<rparr>)
       = \<lparr>files = [docsPath \<mapsto> ''[{''], writable = (\<lambda>p. True)\<rparr>
   \<and> out_fs (run demo demo_fs) \<noteq> demo_fs
   \<and> build_index demo (JArr [JObj []]) = Inr ''5''
   \<and> out_fs (run demo demo_fs) = demo_fs\<lparr>files := (files demo_fs)(idxPath \<mapsto> ''5'')\<rparr>"
proof -
  have ne: "out_fs (run demo demo_fs) \<noteq> demo_fs"
  proof
    assume "out_fs (run demo demo_fs) = demo_fs"
    then have "files (out_fs (run demo demo_fs)) idxPath = files demo_fs idxPath"
      by simp
    then have "Some ''5'' = files demo_fs idxPath"
      by (simp add: run_demo_fs)
    then show False
      using docsPath_neq_idxPath by (simp add: demo_fs_def)
  qed
  have p: "json_parse demo ''[{}]'' = Some (JArr [JObj []])" and q: "json_parse demo ''[{'' = None"
    by (simp_all add: demo_def)
  have f: "files demo_fs docsPath = Some ''[{}]''"
    by (simp add: demo_fs_def)
  show ?thesis
    using bad_input_writes_nothing [of "\<lparr>files = Map.empty, writable = (\<lambda>p. True)\<rparr>" demo]
      bad_input_writes_nothing [of "\<lparr>files = [docsPath \<mapsto> ''[{''], writable = (\<lambda>p. True)\<rparr>" demo]
      bad_input_writes_nothing [of demo_fs demo] ne p q f
    by (simp add: run_demo_fs build_index_demo)
qed

end
